theory Spec2Isabelle
  imports Complex_Main
begin

section \<open>The map-authoring module: lua_api.js\<close>

text \<open>
  The module runs a Lua map script in a fresh interpreter state and collects what the
  script's calls of the authoring functions build.  The interpreter itself (fengari) is
  a library; it is represented by the values it hands to the authoring functions and by
  the documented behaviour of the C-API calls the module makes.

  JavaScript and Lua numbers are IEEE doubles; they are idealised as \<^typ>\<open>real\<close>.
  Two conversions of the library are taken as parameters of every function that depends
  on them: \<open>cvt\<close>, Lua's reading of a string as a number (used by \<open>lua_isnumber\<close>,
  \<open>lua_tonumber\<close> and \<open>luaL_checknumber\<close>), and \<open>fmt\<close>, Lua's writing of a number
  as a string (used by \<open>lua_tojsstring\<close>).
\<close>

subsection \<open>Lua values and the interpreter state\<close>

text \<open>
  A table is kept as the list of its entries, key and value, in the order in which
  \<open>lua_next\<close> walks them.  In a table the keys are distinct and no key is \<open>nil\<close>.
  Strings are texts that JavaScript can read (valid UTF-8).
\<close>

datatype lua_value =
    LNil
  | LBoolean bool
  | LNumber real
  | LString string
  | LTable "(lua_value \<times> lua_value) list"
  | LFunction nat
  | LThread

datatype lua_type =
  LUA_TNONE | LUA_TNIL | LUA_TBOOLEAN | LUA_TNUMBER | LUA_TSTRING | LUA_TTABLE
  | LUA_TFUNCTION | LUA_TTHREAD

datatype lua_error =
    BadArgument nat lua_type
  | CallNil string
  | InvalidKeyToNext
  | ScriptError string

type_synonym str2number = "string \<Rightarrow> real option"

type_synonym number2str = "real \<Rightarrow> string"

record lua_State =
  stack :: "lua_value list"
  registry :: "lua_value list"

text \<open>
  A new state's registry holds the main thread at index 1 and the table of globals at
  index 2 (the globals table is not inspected here).
\<close>

definition luaL_newstate :: lua_State where
  "luaL_newstate = \<lparr>stack = [], registry = [LThread, LTable []]\<rparr>"

fun type_of_value :: "lua_value \<Rightarrow> lua_type" where
  "type_of_value LNil = LUA_TNIL"
| "type_of_value (LBoolean b) = LUA_TBOOLEAN"
| "type_of_value (LNumber n) = LUA_TNUMBER"
| "type_of_value (LString s) = LUA_TSTRING"
| "type_of_value (LTable t) = LUA_TTABLE"
| "type_of_value (LFunction f) = LUA_TFUNCTION"
| "type_of_value LThread = LUA_TTHREAD"

text \<open>Stack index \<open>i\<close> counts from 1 at the first argument of the running function.\<close>

definition lua_type :: "lua_State \<Rightarrow> nat \<Rightarrow> lua_type" where
  "lua_type L i =
     (if 1 \<le> i \<and> i \<le> length (stack L) then type_of_value (stack L ! (i - 1))
      else LUA_TNONE)"

fun lua_isnumber :: "str2number \<Rightarrow> lua_value \<Rightarrow> bool" where
  "lua_isnumber cvt (LNumber n) = True"
| "lua_isnumber cvt (LString s) = (cvt s \<noteq> None)"
| "lua_isnumber cvt v = False"

fun lua_tonumber :: "str2number \<Rightarrow> lua_value \<Rightarrow> real" where
  "lua_tonumber cvt (LNumber n) = n"
| "lua_tonumber cvt (LString s) = (case cvt s of Some n \<Rightarrow> n | None \<Rightarrow> 0)"
| "lua_tonumber cvt v = 0"

fun lua_isboolean :: "lua_value \<Rightarrow> bool" where
  "lua_isboolean (LBoolean b) = True"
| "lua_isboolean v = False"

fun lua_toboolean :: "lua_value \<Rightarrow> bool" where
  "lua_toboolean LNil = False"
| "lua_toboolean (LBoolean b) = b"
| "lua_toboolean v = True"

fun lua_isstring :: "lua_value \<Rightarrow> bool" where
  "lua_isstring (LString s) = True"
| "lua_isstring (LNumber n) = True"
| "lua_isstring v = False"

text \<open>
  \<open>lua_tojsstring\<close> gives the text of a string, the text Lua writes for a number, and
  \<open>null\<close> (\<open>None\<close>) for every other value.  For a number it also replaces the value
  in its stack slot by that string; \<open>slot_after_tojsstring\<close> is what the slot holds
  afterwards.
\<close>

fun lua_tojsstring :: "number2str \<Rightarrow> lua_value \<Rightarrow> string option" where
  "lua_tojsstring fmt (LString s) = Some s"
| "lua_tojsstring fmt (LNumber n) = Some (fmt n)"
| "lua_tojsstring fmt v = None"

fun slot_after_tojsstring :: "number2str \<Rightarrow> lua_value \<Rightarrow> lua_value" where
  "slot_after_tojsstring fmt (LNumber n) = LString (fmt n)"
| "slot_after_tojsstring fmt v = v"

text \<open>
  \<open>lua_next\<close> on a table and the key in the slot below the top: for \<open>nil\<close> it gives
  the first entry, for a key of the table the entry after that key's, or nothing when
  that was the last; for any other key it raises the error \<open>invalid key to 'next'\<close>.
\<close>

fun entries_after ::
  "lua_value \<Rightarrow> (lua_value \<times> lua_value) list \<Rightarrow> (lua_value \<times> lua_value) list option" where
  "entries_after key [] = None"
| "entries_after key (e # es) = (if fst e = key then Some es else entries_after key es)"

definition lua_next ::
  "(lua_value \<times> lua_value) list \<Rightarrow> lua_value \<Rightarrow> lua_error + (lua_value \<times> lua_value) option" where
  "lua_next t key =
     (if key = LNil then Inr (case t of [] \<Rightarrow> None | e # es \<Rightarrow> Some e)
      else
        (case entries_after key t of
           None \<Rightarrow> Inl InvalidKeyToNext
         | Some [] \<Rightarrow> Inr None
         | Some (e # es) \<Rightarrow> Inr (Some e)))"

text \<open>
  \<open>luaL_checknumber\<close> and \<open>luaL_checktype\<close> raise a Lua error when the argument
  does not fit; the error is the \<open>Inl\<close> of the result.
\<close>

definition luaL_checknumber :: "str2number \<Rightarrow> lua_State \<Rightarrow> nat \<Rightarrow> lua_error + real" where
  "luaL_checknumber cvt L i =
     (if 1 \<le> i \<and> i \<le> length (stack L) \<and> lua_isnumber cvt (stack L ! (i - 1))
      then Inr (lua_tonumber cvt (stack L ! (i - 1)))
      else Inl (BadArgument i LUA_TNUMBER))"

definition luaL_checktype :: "lua_State \<Rightarrow> nat \<Rightarrow> lua_type \<Rightarrow> lua_error + unit" where
  "luaL_checktype L i t = (if lua_type L i = t then Inr () else Inl (BadArgument i t))"

definition LUA_REFNIL :: int where
  "LUA_REFNIL = - 1"

text \<open>
  \<open>luaL_ref(L, LUA_REGISTRYINDEX)\<close> pops the value on top of the stack and stores it in
  the registry under a fresh integer key, which it returns; for a \<open>nil\<close> on top it
  stores nothing and returns \<open>LUA_REFNIL\<close>.  No reference is ever released by the
  module, so the fresh key is the registry's length plus one.
\<close>

definition luaL_ref :: "lua_State \<Rightarrow> int \<times> lua_State" where
  "luaL_ref L =
     (if stack L = [] then (LUA_REFNIL, L)
      else if last (stack L) = LNil then (LUA_REFNIL, L\<lparr>stack := butlast (stack L)\<rparr>)
      else (int (length (registry L)) + 1,
            L\<lparr>stack := butlast (stack L), registry := registry L @ [last (stack L)]\<rparr>))"

definition lua_rawgeti :: "lua_State \<Rightarrow> int \<Rightarrow> lua_value" where
  "lua_rawgeti L n =
     (if 1 \<le> n \<and> n \<le> int (length (registry L)) then registry L ! (nat n - 1) else LNil)"

subsection \<open>The module's variables and the map document\<close>

text \<open>
  A JavaScript object built by the module is the map from its own property names to
  their values; the order in which its properties are enumerated is not modelled.
\<close>

datatype js_value = JSNumber real | JSBoolean bool | JSString string

type_synonym js_props = "string \<rightharpoonup> js_value"

record map_doc =
  gravity :: "(real \<times> real) option"
  dimensions :: "(real \<times> real) option"
  entities :: "js_props list option"

definition empty_doc :: map_doc where
  "empty_doc = \<lparr>gravity = None, dimensions = None, entities = None\<rparr>"

text \<open>
  Objects live in a store; a reference is an index into it.  \<open>mapData\<close> and
  \<open>onMouseClick\<close> are the module-level \<open>let\<close> variables; \<open>console\<close> collects what
  \<open>console.error\<close> is given.
\<close>

record module_state =
  heap :: "map_doc list"
  mapData :: nat
  onMouseClick :: "int option"
  console :: "lua_error list"

definition init_module :: module_state where
  "init_module = \<lparr>heap = [empty_doc], mapData = 0, onMouseClick = None, console = []\<rparr>"

definition update_mapData :: "(map_doc \<Rightarrow> map_doc) \<Rightarrow> module_state \<Rightarrow> module_state" where
  "update_mapData f g = g\<lparr>heap := (heap g)[mapData g := f (heap g ! mapData g)]\<rparr>"

subsection \<open>The authoring functions\<close>

definition api_set_gravity ::
  "str2number \<Rightarrow> lua_State \<Rightarrow> module_state \<Rightarrow> lua_error + lua_State \<times> module_state" where
  "api_set_gravity cvt L g =
     (case luaL_checknumber cvt L 1 of
        Inl e \<Rightarrow> Inl e
      | Inr x \<Rightarrow>
          (case luaL_checknumber cvt L 2 of
             Inl e \<Rightarrow> Inl e
           | Inr y \<Rightarrow> Inr (L, update_mapData (\<lambda>d. d\<lparr>gravity := Some (x, y)\<rparr>) g)))"

definition api_set_map_dimensions ::
  "str2number \<Rightarrow> lua_State \<Rightarrow> module_state \<Rightarrow> lua_error + lua_State \<times> module_state" where
  "api_set_map_dimensions cvt L g =
     (case luaL_checknumber cvt L 1 of
        Inl e \<Rightarrow> Inl e
      | Inr width \<Rightarrow>
          (case luaL_checknumber cvt L 2 of
             Inl e \<Rightarrow> Inl e
           | Inr height \<Rightarrow>
               Inr (L, update_mapData (\<lambda>d. d\<lparr>dimensions := Some (width, height)\<rparr>) g)))"

text \<open>
  \<open>props[key] = v\<close> on an object made by \<open>{}\<close>, for a \<open>v\<close> that is a number, a
  boolean or a string.  A key that is \<open>null\<close> names the property \<open>"null"\<close>.  The
  name \<open>__proto__\<close> is an accessor of the prototype, whose setter ignores such a
  value: nothing is stored.  Any other name becomes (or stays) an own property holding
  \<open>v\<close>.
\<close>

definition js_assign :: "js_props \<Rightarrow> string option \<Rightarrow> js_value \<Rightarrow> js_props" where
  "js_assign props key v =
     (let name = (case key of None \<Rightarrow> ''null'' | Some s \<Rightarrow> s)
      in if name = ''__proto__'' then props else props(name \<mapsto> v))"

text \<open>
  The body of the \<open>lua_next\<close> loop of \<open>api_create_entity\<close>, for the key text read
  from the slot below the top and the value on top: the tests are tried in the
  source's order, and a value that passes none of them leaves \<open>props\<close> as it is.
\<close>

definition copy_prop ::
  "str2number \<Rightarrow> number2str \<Rightarrow> js_props \<Rightarrow> string option \<Rightarrow> lua_value \<Rightarrow> js_props" where
  "copy_prop cvt fmt props key v =
     (if lua_isnumber cvt v then js_assign props key (JSNumber (lua_tonumber cvt v))
      else if lua_isboolean v then js_assign props key (JSBoolean (lua_toboolean v))
      else if lua_isstring v then
        (case lua_tojsstring fmt v of
           Some s \<Rightarrow> js_assign props key (JSString s)
         | None \<Rightarrow> props)
      else props)"

text \<open>
  The loop itself.  \<open>key\<close> is what the slot below the top holds when \<open>lua_next\<close> is
  called: \<open>nil\<close> at first, afterwards the key of the entry just read, as
  \<open>lua_tojsstring\<close> has left it.  A numeric key is left as a string, which \<open>lua_next\<close>
  then looks up in the table.  The loop need not end; the result is \<open>None\<close> when it
  does not, the error when \<open>lua_next\<close> raises one, and \<open>props\<close> otherwise.
\<close>

partial_function (option) create_entity_loop ::
  "str2number \<Rightarrow> number2str \<Rightarrow> (lua_value \<times> lua_value) list \<Rightarrow> lua_value \<Rightarrow> js_props \<Rightarrow>
     (lua_error + js_props) option" where
  "create_entity_loop cvt fmt t key props =
     (case lua_next t key of
        Inl e \<Rightarrow> Some (Inl e)
      | Inr None \<Rightarrow> Some (Inr props)
      | Inr (Some kv) \<Rightarrow>
          create_entity_loop cvt fmt t (slot_after_tojsstring fmt (fst kv))
            (copy_prop cvt fmt props (lua_tojsstring fmt (fst kv)) (snd kv)))"

definition push_entity :: "js_props \<Rightarrow> map_doc \<Rightarrow> map_doc" where
  "push_entity props d =
     d\<lparr>entities := Some ((case entities d of None \<Rightarrow> [] | Some es \<Rightarrow> es) @ [props])\<rparr>"

text \<open>
  An authoring function that may not return has an optional result, \<open>None\<close> when it
  does not return.  Only \<open>api_create_entity\<close> has a loop.
\<close>

definition api_create_entity ::
  "str2number \<Rightarrow> number2str \<Rightarrow> lua_State \<Rightarrow> module_state \<Rightarrow>
     (lua_error + lua_State \<times> module_state) option" where
  "api_create_entity cvt fmt L g =
     (case luaL_checktype L 1 LUA_TTABLE of
        Inl e \<Rightarrow> Some (Inl e)
      | Inr u \<Rightarrow>
          (case hd (stack L) of
             LTable t \<Rightarrow>
               (case create_entity_loop cvt fmt t LNil Map.empty of
                  None \<Rightarrow> None
                | Some (Inl e) \<Rightarrow> Some (Inl e)
                | Some (Inr props) \<Rightarrow> Some (Inr (L, update_mapData (push_entity props) g)))
           | _ \<Rightarrow> Some (Inl (BadArgument 1 LUA_TTABLE))))"

definition api_on_mouse_click ::
  "str2number \<Rightarrow> lua_State \<Rightarrow> module_state \<Rightarrow> lua_error + lua_State \<times> module_state" where
  "api_on_mouse_click cvt L g =
     (case luaL_checktype L 1 LUA_TFUNCTION of
        Inl e \<Rightarrow> Inl e
      | Inr u \<Rightarrow> (case luaL_ref L of (r, L') \<Rightarrow> Inr (L', g\<lparr>onMouseClick := Some r\<rparr>)))"

definition cursorArenaLib ::
  "str2number \<Rightarrow> number2str \<Rightarrow>
     (string \<times> (lua_State \<Rightarrow> module_state \<Rightarrow> (lua_error + lua_State \<times> module_state) option))
       list" where
  "cursorArenaLib cvt fmt =
     [(''set_gravity'', \<lambda>L g. Some (api_set_gravity cvt L g)),
      (''create_entity'', api_create_entity cvt fmt),
      (''on_mouse_click'', \<lambda>L g. Some (api_on_mouse_click cvt L g)),
      (''set_map_dimensions'', \<lambda>L g. Some (api_set_map_dimensions cvt L g))]"

subsection \<open>Running a script\<close>

text \<open>
  The authoring functions return nothing to Lua, so a script cannot observe the module:
  its run is the sequence of things it does to the host.  A script is therefore given
  as that sequence: calls of a global the host may have defined (\<open>Call\<close> unprotected,
  \<open>PCall\<close> under \<open>pcall\<close>), and \<open>Raise\<close> for an error of the script's own (a syntax
  error, \<open>error(...)\<close>, a failing operation).  \<open>runLuaScript\<close> sets every key of
  \<open>cursorArenaLib\<close> as a global and nothing else, so a name resolves to its entry in
  that table, and to \<open>nil\<close> when it has none; calling \<open>nil\<close> is an error.  (The
  table \<open>cursor_arena\<close> holds the same functions under the same names.)  Names of
  Lua's standard library and names the script defines itself are not written as calls.
  A function value is an \<open>LFunction\<close> with a number that tells closures apart; the
  module never calls one.

  A call that does not return keeps the script, and \<open>runLuaScript\<close>, from returning:
  the results are optional, with \<open>None\<close> for a run that does not end.
\<close>

datatype lua_stmt =
    Call string "lua_value list"
  | PCall string "lua_value list"
  | Raise string

definition lua_call ::
  "str2number \<Rightarrow> number2str \<Rightarrow> string \<Rightarrow> lua_value list \<Rightarrow> lua_State \<Rightarrow> module_state \<Rightarrow>
     (lua_error + lua_State \<times> module_state) option" where
  "lua_call cvt fmt name args L g =
     (case map_of (cursorArenaLib cvt fmt) name of
        None \<Rightarrow> Some (Inl (CallNil name))
      | Some f \<Rightarrow>
          (case f (L\<lparr>stack := args\<rparr>) g of
             None \<Rightarrow> None
           | Some (Inl e) \<Rightarrow> Some (Inl e)
           | Some (Inr (L', g')) \<Rightarrow> Some (Inr (L'\<lparr>stack := stack L\<rparr>, g'))))"

text \<open>The status is \<open>None\<close> for \<open>LUA_OK\<close> and the error otherwise.\<close>

fun luaL_dostring ::
  "str2number \<Rightarrow> number2str \<Rightarrow> lua_State \<Rightarrow> lua_stmt list \<Rightarrow> module_state \<Rightarrow>
     (lua_error option \<times> lua_State \<times> module_state) option" where
  "luaL_dostring cvt fmt L [] g = Some (None, L, g)"
| "luaL_dostring cvt fmt L (Call name args # rest) g =
     (case lua_call cvt fmt name args L g of
        None \<Rightarrow> None
      | Some (Inl e) \<Rightarrow> Some (Some e, L, g)
      | Some (Inr (L', g')) \<Rightarrow> luaL_dostring cvt fmt L' rest g')"
| "luaL_dostring cvt fmt L (PCall name args # rest) g =
     (case lua_call cvt fmt name args L g of
        None \<Rightarrow> None
      | Some (Inl e) \<Rightarrow> luaL_dostring cvt fmt L rest g
      | Some (Inr (L', g')) \<Rightarrow> luaL_dostring cvt fmt L' rest g')"
| "luaL_dostring cvt fmt L (Raise msg # rest) g = Some (Some (ScriptError msg), L, g)"

text \<open>
  \<open>runLuaScript\<close> returns \<open>null\<close> (\<open>None\<close>) or the reference held by \<open>mapData\<close>.
  \<open>mapData = {}\<close> allocates a new object and makes the variable refer to it.
\<close>

definition reset_mapData :: "module_state \<Rightarrow> module_state" where
  "reset_mapData g = g\<lparr>heap := heap g @ [empty_doc], mapData := length (heap g)\<rparr>"

definition runLuaScript ::
  "str2number \<Rightarrow> number2str \<Rightarrow> lua_stmt list \<Rightarrow> module_state \<Rightarrow>
     (nat option \<times> module_state) option" where
  "runLuaScript cvt fmt script g =
     (case luaL_dostring cvt fmt luaL_newstate script (reset_mapData g) of
        None \<Rightarrow> None
      | Some (Some error, L, g') \<Rightarrow> Some (None, g'\<lparr>console := console g' @ [error]\<rparr>)
      | Some (None, L, g') \<Rightarrow> Some (Some (mapData g'), g'))"

text \<open>The document a call hands to its caller: the object its result refers to.\<close>

definition returned_doc :: "nat option \<times> module_state \<Rightarrow> map_doc option" where
  "returned_doc res = (case fst res of None \<Rightarrow> None | Some a \<Rightarrow> Some (heap (snd res) ! a))"

text \<open>The script the editor starts with, as the sequence of its calls.\<close>

definition defaultScript :: "lua_stmt list" where
  "defaultScript =
     [Call ''set_gravity'' [LNumber 0, LNumber (- 2)],
      Call ''create_entity''
        [LTable [(LString ''shape'', LString ''rect''), (LString ''x1'', LNumber (1 / 10)),
                 (LString ''y1'', LNumber (1 / 10)), (LString ''x2'', LNumber (9 / 10)),
                 (LString ''y2'', LNumber (2 / 10)), (LString ''is_static'', LBoolean True)]],
      Call ''create_entity''
        [LTable [(LString ''shape'', LString ''circle''), (LString ''x'', LNumber (5 / 10)),
                 (LString ''y'', LNumber (7 / 10)), (LString ''radius'', LNumber (5 / 100)),
                 (LString ''restitution'', LNumber (8 / 10))]],
      Call ''create_entity''
        [LTable [(LString ''shape'', LString ''rect''), (LString ''x1'', LNumber (4 / 10)),
                 (LString ''y1'', LNumber (4 / 10)), (LString ''x2'', LNumber (6 / 10)),
                 (LString ''y2'', LNumber (5 / 10)), (LString ''is_death'', LBoolean True)]],
      Call ''on_mouse_click'' [LFunction 0]]"

section \<open>The game client: bootstrap.js\<close>

text \<open>
  The client is event-driven: the browser calls the handlers that the two init
  functions register.  A client is the record of the variables the handlers share, an
  event is one call of a handler, and a run is a list of events.  The canvas content,
  the cursor images and the physics engine (a WebAssembly package) are outside the
  model; what is sent to the server and what is handed to the engine is recorded.
  Numbers are idealised as \<^typ>\<open>real\<close>; a division can leave the finite numbers (a zero
  divisor gives \<open>NaN\<close> or an infinity), so its result is a \<open>js_number\<close>.
\<close>

subsection \<open>Shared by both init functions\<close>

datatype js_number = Finite real | NonFinite

definition js_div :: "real \<Rightarrow> real \<Rightarrow> js_number" where
  "js_div a b = (if b = 0 then NonFinite else Finite (a / b))"

definition WORLD_WIDTH :: real where
  "WORLD_WIDTH = 16"

definition WORLD_HEIGHT :: real where
  "WORLD_HEIGHT = 9"

definition WORLD_ASPECT_RATIO :: real where
  "WORLD_ASPECT_RATIO = WORLD_WIDTH / WORLD_HEIGHT"

record input_state =
  mouse_dx :: real
  mouse_dy :: real
  isMouseDown :: bool

text \<open>
  \<open>initMultiplayerGame\<close> and \<open>initLocalGame\<close> each declare \<open>inputState\<close>, \<open>scale\<close>,
  \<open>handleResize\<close> and \<open>updatePosition\<close> with the same text; they are modelled once, on
  the part of the state both have.  \<open>mousemove_listener\<close> tells whether
  \<open>updatePosition\<close> is registered for \<open>mousemove\<close> at the moment (registering the
  same function twice registers it once).
\<close>

record client =
  inputState :: input_state
  scale :: real
  canvas_width :: nat
  canvas_height :: nat
  mousemove_listener :: bool

text \<open>
  \<open>handleResize\<close>, given the container's bounding rectangle.  Assigning a number to
  \<open>canvas.width\<close> truncates it to an integer.  With a canvas of height 0 the aspect
  ratio is an infinity or \<open>NaN\<close>; the first is greater than the world's ratio and
  selects \<open>canvas.height / WORLD_HEIGHT\<close>, which is 0, the second is not and selects
  \<open>canvas.width / WORLD_WIDTH\<close> with a width of 0: the scale is 0 either way.
\<close>

definition handleResize :: "real \<Rightarrow> real \<Rightarrow> 'a client_scheme \<Rightarrow> 'a client_scheme" where
  "handleResize rect_width rect_height c =
     (let w = nat \<lfloor>rect_width\<rfloor>; h = nat \<lfloor>rect_height\<rfloor>;
          c' = c\<lparr>canvas_width := w, canvas_height := h\<rparr>
      in if h = 0 then c'\<lparr>scale := 0\<rparr>
         else if real w / real h > WORLD_ASPECT_RATIO then c'\<lparr>scale := real h / WORLD_HEIGHT\<rparr>
         else c'\<lparr>scale := real w / WORLD_WIDTH\<rparr>)"

definition updatePosition :: "real \<Rightarrow> real \<Rightarrow> 'a client_scheme \<Rightarrow> 'a client_scheme" where
  "updatePosition movementX movementY c =
     c\<lparr>inputState := (inputState c)
          \<lparr>mouse_dx := mouse_dx (inputState c) + movementX,
           mouse_dy := mouse_dy (inputState c) - movementY\<rparr>\<rparr>"

definition setMouseDown :: "bool \<Rightarrow> 'a client_scheme \<Rightarrow> 'a client_scheme" where
  "setMouseDown b c = c\<lparr>inputState := (inputState c)\<lparr>isMouseDown := b\<rparr>\<rparr>"

subsection \<open>The multiplayer client\<close>

datatype json =
    JNull
  | JBool bool
  | JNum real
  | JStr string
  | JArr "json list"
  | JObj "(string \<times> json) list"

datatype js_exception = SyntaxError | TypeError

datatype ready_state = CONNECTING | OPEN | CLOSING | CLOSED

record input_message =
  msg_mouse_dx :: js_number
  msg_mouse_dy :: js_number
  is_mouse_down :: bool

text \<open>
  \<open>localPlayerId\<close> is \<open>None\<close> for \<open>undefined\<close>.  \<open>sent\<close> lists the messages given to
  \<open>socket.send\<close>, \<open>drawn\<close> the game states \<open>draw\<close> has painted, \<open>errors\<close> what the
  \<open>catch\<close> of \<open>onmessage\<close> has logged.
\<close>

record multiplayer = client +
  localPlayerId :: "json option"
  readyState :: ready_state
  sent :: "input_message list"
  button_listeners :: bool
  interval_set :: bool
  drawn :: "json list"
  errors :: "js_exception list"

definition initMultiplayerGame :: "real \<Rightarrow> real \<Rightarrow> multiplayer" where
  "initMultiplayerGame rect_width rect_height =
     handleResize rect_width rect_height
       \<lparr>inputState = \<lparr>mouse_dx = 0, mouse_dy = 0, isMouseDown = False\<rparr>,
        scale = 1, canvas_width = 0, canvas_height = 0, mousemove_listener = False,
        localPlayerId = Some JNull, readyState = CONNECTING, sent = [],
        button_listeners = False, interval_set = False, drawn = [], errors = []\<rparr>"

definition onopen :: "multiplayer \<Rightarrow> multiplayer" where
  "onopen c = c\<lparr>mousemove_listener := True, button_listeners := True, interval_set := True\<rparr>"

definition onclose :: "multiplayer \<Rightarrow> multiplayer" where
  "onclose c = c\<lparr>mousemove_listener := False\<rparr>"

definition sendInput :: "multiplayer \<Rightarrow> multiplayer" where
  "sendInput c =
     (if readyState c = OPEN then
        (let world_dx = js_div (mouse_dx (inputState c)) (scale c);
             world_dy = js_div (mouse_dy (inputState c)) (scale c);
             message = \<lparr>msg_mouse_dx = world_dx, msg_mouse_dy = world_dy,
                        is_mouse_down = isMouseDown (inputState c)\<rparr>
         in c\<lparr>sent := sent c @ [message],
              inputState := (inputState c)\<lparr>mouse_dx := 0, mouse_dy := 0\<rparr>\<rparr>)
      else c)"

text \<open>
  Reading a property: of \<open>null\<close> it throws a \<open>TypeError\<close>; of an object it gives the
  member or \<open>undefined\<close>; the properties read here (\<open>type\<close>, \<open>id\<close>, \<open>boundaries\<close>,
  \<open>objects\<close>, \<open>players\<close>) are \<open>undefined\<close> on every other parsed value.
\<close>

fun get_prop :: "json \<Rightarrow> string \<Rightarrow> js_exception + json option" where
  "get_prop JNull k = Inl TypeError"
| "get_prop (JObj members) k = Inr (map_of members k)"
| "get_prop v k = Inr None"

text \<open>
  \<open>draw\<close> walks \<open>boundaries\<close>, \<open>objects\<close> and \<open>players\<close> with \<open>forEach\<close> and reads
  properties of every element: it throws unless each of the three is an array without
  a \<open>null\<close> in it.  What it paints is not modelled; a game state it has painted to the
  end is appended to \<open>drawn\<close>.
\<close>

fun forEach_ok :: "json option \<Rightarrow> bool" where
  "forEach_ok (Some (JArr xs)) = (JNull \<notin> set xs)"
| "forEach_ok v = False"

definition draw :: "json \<Rightarrow> multiplayer \<Rightarrow> js_exception + multiplayer" where
  "draw gameState c =
     (case get_prop gameState ''boundaries'' of
        Inl e \<Rightarrow> Inl e
      | Inr boundaries \<Rightarrow>
          if \<not> forEach_ok boundaries then Inl TypeError
          else
            (case get_prop gameState ''objects'' of
               Inl e \<Rightarrow> Inl e
             | Inr objects \<Rightarrow>
                 if \<not> forEach_ok objects then Inl TypeError
                 else
                   (case get_prop gameState ''players'' of
                      Inl e \<Rightarrow> Inl e
                    | Inr players \<Rightarrow>
                        if \<not> forEach_ok players then Inl TypeError
                        else Inr (c\<lparr>drawn := drawn c @ [gameState]\<rparr>))))"

text \<open>
  \<open>socket.onmessage\<close>.  \<open>JSON.parse\<close> is the parameter \<open>parse\<close>, with \<open>None\<close> for the
  \<open>SyntaxError\<close> it throws on a text that is not JSON.  The body of the \<open>try\<close> is
  \<open>onmessage_try\<close>; the \<open>catch\<close> logs the exception and leaves everything else alone.
\<close>

definition onmessage_try ::
  "(string \<Rightarrow> json option) \<Rightarrow> string \<Rightarrow> multiplayer \<Rightarrow> js_exception + multiplayer" where
  "onmessage_try parse data c =
     (case parse data of
        None \<Rightarrow> Inl SyntaxError
      | Some message \<Rightarrow>
          (case get_prop message ''type'' of
             Inl e \<Rightarrow> Inl e
           | Inr t \<Rightarrow>
               if t = Some (JStr ''Welcome'') then
                 (case get_prop message ''id'' of
                    Inl e \<Rightarrow> Inl e
                  | Inr i \<Rightarrow> Inr (c\<lparr>localPlayerId := i\<rparr>))
               else if t = Some (JStr ''GameState'') then draw message c
               else Inr c))"

definition onmessage :: "(string \<Rightarrow> json option) \<Rightarrow> string \<Rightarrow> multiplayer \<Rightarrow> multiplayer" where
  "onmessage parse data c =
     (case onmessage_try parse data c of
        Inl e \<Rightarrow> c\<lparr>errors := errors c @ [e]\<rparr>
      | Inr c' \<Rightarrow> c')"

text \<open>
  The events of the multiplayer client.  The socket's state is the browser's: it is
  \<open>OPEN\<close> when \<open>onopen\<close> is called and \<open>CLOSED\<close> when \<open>onclose\<close> is.  A handler runs
  only when it is registered.
\<close>

datatype mp_event =
    SocketOpen
  | SocketMessage string
  | SocketClose
  | MouseMove real real
  | MouseDown
  | MouseUp
  | Resize real real
  | IntervalTick

fun mp_step :: "(string \<Rightarrow> json option) \<Rightarrow> mp_event \<Rightarrow> multiplayer \<Rightarrow> multiplayer" where
  "mp_step parse SocketOpen c = onopen (c\<lparr>readyState := OPEN\<rparr>)"
| "mp_step parse (SocketMessage data) c = onmessage parse data c"
| "mp_step parse SocketClose c = onclose (c\<lparr>readyState := CLOSED\<rparr>)"
| "mp_step parse (MouseMove mx my) c =
     (if mousemove_listener c then updatePosition mx my c else c)"
| "mp_step parse MouseDown c = (if button_listeners c then setMouseDown True c else c)"
| "mp_step parse MouseUp c = (if button_listeners c then setMouseDown False c else c)"
| "mp_step parse (Resize w h) c = handleResize w h c"
| "mp_step parse IntervalTick c = (if interval_set c then sendInput c else c)"

fun mp_run :: "(string \<Rightarrow> json option) \<Rightarrow> mp_event list \<Rightarrow> multiplayer \<Rightarrow> multiplayer" where
  "mp_run parse [] c = c"
| "mp_run parse (e # es) c = mp_run parse es (mp_step parse e c)"

subsection \<open>The local game of the map editor\<close>

text \<open>
  \<open>ticks\<close> lists the arguments of the calls of \<open>game.tick\<close>.  The engine's answer and
  its painting are not modelled.
\<close>

record local_game = client +
  ticks :: "(js_number \<times> js_number \<times> bool) list"

definition initLocalGame :: "real \<Rightarrow> real \<Rightarrow> local_game" where
  "initLocalGame rect_width rect_height =
     handleResize rect_width rect_height
       \<lparr>inputState = \<lparr>mouse_dx = 0, mouse_dy = 0, isMouseDown = False\<rparr>,
        scale = 1, canvas_width = 0, canvas_height = 0, mousemove_listener = False,
        ticks = []\<rparr>"

definition gameLoop :: "local_game \<Rightarrow> local_game" where
  "gameLoop c =
     (let world_dx = js_div (mouse_dx (inputState c)) (scale c);
          world_dy = js_div (mouse_dy (inputState c)) (scale c);
          c' = c\<lparr>inputState := (inputState c)\<lparr>mouse_dx := 0, mouse_dy := 0\<rparr>\<rparr>
      in c'\<lparr>ticks := ticks c' @ [(world_dx, world_dy, isMouseDown (inputState c'))]\<rparr>)"




section \<open>Notions of the specification\<close>

text \<open>
  A table of named properties: every key is a string (and, as in every table, the keys
  are distinct).
\<close>

definition named_properties :: "(lua_value \<times> lua_value) list \<Rightarrow> bool" where
  "named_properties t =
     (list_all (\<lambda>kv. type_of_value (fst kv) = LUA_TSTRING) t \<and> distinct (map fst t))"

text \<open>
  The required shape fields, as the API document lists them: a \<open>"rect"\<close> has \<open>x1\<close>,
  \<open>y1\<close>, \<open>x2\<close>, \<open>y2\<close>, a \<open>"circle"\<close> has \<open>x\<close>, \<open>y\<close>, \<open>radius\<close>.  An entity
  specification is missing required shape fields when it names one of the two shapes
  and lacks one of that shape's fields.
\<close>

definition spec_missing_shape_fields :: "(lua_value \<times> lua_value) list \<Rightarrow> bool" where
  "spec_missing_shape_fields t =
     ((map_of t (LString ''shape'') = Some (LString ''rect'')
        \<and> \<not> LString ` {''x1'', ''y1'', ''x2'', ''y2''} \<subseteq> fst ` set t)
      \<or> (map_of t (LString ''shape'') = Some (LString ''circle'')
        \<and> \<not> LString ` {''x'', ''y'', ''radius''} \<subseteq> fst ` set t))"

text \<open>
  The click callbacks the module can still reach after a run: the value its one
  reference stands for in the registry, if it holds a reference.
\<close>

definition registered_click_handlers :: "lua_State \<Rightarrow> module_state \<Rightarrow> lua_value list" where
  "registered_click_handlers L g =
     (case onMouseClick g of None \<Rightarrow> [] | Some r \<Rightarrow> [lua_rawgeti L r])"

text \<open>
  What \<open>create_entity\<close> stores for a property value: a number, a boolean or a string
  as it is, except that a string Lua reads as a number is stored as that number;
  nothing for a value of another type.
\<close>

fun scalar_to_js :: "str2number \<Rightarrow> lua_value \<Rightarrow> js_value option" where
  "scalar_to_js cvt (LNumber n) = Some (JSNumber n)"
| "scalar_to_js cvt (LBoolean b) = Some (JSBoolean b)"
| "scalar_to_js cvt (LString s) =
     (case cvt s of Some n \<Rightarrow> Some (JSNumber n) | None \<Rightarrow> Some (JSString s))"
| "scalar_to_js cvt v = None"

text \<open>
  The record of a table of named properties: each property whose value is a number, a
  boolean or a string, under its name, except the name \<open>__proto__\<close>.
\<close>

definition named_record :: "str2number \<Rightarrow> (lua_value \<times> lua_value) list \<Rightarrow> js_props" where
  "named_record cvt t name =
     (if name = ''__proto__'' then None
      else (case map_of t (LString name) of None \<Rightarrow> None | Some v \<Rightarrow> scalar_to_js cvt v))"


text \<open>
  The mouse movements that reach \<open>updatePosition\<close> during a run of the multiplayer
  client, given whether the listener is registered when the run starts, and the button
  state at its end, given whether the button listeners are registered and the state at
  the start.
\<close>

fun mp_moves :: "mp_event list \<Rightarrow> bool \<Rightarrow> (real \<times> real) list" where
  "mp_moves [] l = []"
| "mp_moves (SocketOpen # es) l = mp_moves es True"
| "mp_moves (SocketClose # es) l = mp_moves es False"
| "mp_moves (MouseMove mx my # es) l = (if l then (mx, my) # mp_moves es l else mp_moves es l)"
| "mp_moves (e # es) l = mp_moves es l"

fun mp_button :: "mp_event list \<Rightarrow> bool \<Rightarrow> bool \<Rightarrow> bool" where
  "mp_button [] l b = b"
| "mp_button (SocketOpen # es) l b = mp_button es True b"
| "mp_button (MouseDown # es) l b = mp_button es l (if l then True else b)"
| "mp_button (MouseUp # es) l b = mp_button es l (if l then False else b)"
| "mp_button (e # es) l b = mp_button es l b"



section \<open>Properties of the authoring module\<close>

subsection \<open>What a call and a run leave alone\<close>

lemmas eval_defs = runLuaScript_def reset_mapData_def lua_call_def cursorArenaLib_def
  api_set_gravity_def api_set_map_dimensions_def api_create_entity_def api_on_mouse_click_def
  luaL_checknumber_def luaL_checktype_def lua_type_def luaL_ref_def lua_rawgeti_def
  luaL_newstate_def init_module_def empty_doc_def update_mapData_def push_entity_def
  copy_prop_def js_assign_def lua_next_def returned_doc_def LUA_REFNIL_def

lemmas api_defs = api_set_gravity_def api_set_map_dimensions_def api_create_entity_def
  api_on_mouse_click_def

lemma map_of_lib:
  "map_of (cursorArenaLib cvt fmt) n = Some f \<Longrightarrow>
     f = (\<lambda>L g. Some (api_set_gravity cvt L g)) \<or> f = api_create_entity cvt fmt
       \<or> f = (\<lambda>L g. Some (api_on_mouse_click cvt L g))
       \<or> f = (\<lambda>L g. Some (api_set_map_dimensions cvt L g))"
  by (auto simp: cursorArenaLib_def split: if_splits)

lemma api_frame:
  assumes "f = (\<lambda>L g. Some (api_set_gravity cvt L g)) \<or> f = api_create_entity cvt fmt
       \<or> f = (\<lambda>L g. Some (api_on_mouse_click cvt L g))
       \<or> f = (\<lambda>L g. Some (api_set_map_dimensions cvt L g))"
    and "f L g = Some (Inr (L', g'))"
  shows "mapData g' = mapData g \<and> length (heap g') = length (heap g) \<and> console g' = console g
     \<and> (\<forall>i. i \<noteq> mapData g \<longrightarrow> heap g' ! i = heap g ! i)"
  using assms
  by (auto simp: api_defs update_mapData_def
      split: sum.splits lua_value.splits prod.splits option.splits)

lemma lua_call_frame:
  assumes "lua_call cvt fmt n a L g = Some (Inr (L', g'))"
  shows "mapData g' = mapData g \<and> length (heap g') = length (heap g) \<and> console g' = console g
     \<and> (\<forall>i. i \<noteq> mapData g \<longrightarrow> heap g' ! i = heap g ! i) \<and> stack L' = stack L"
proof -
  from assms obtain f L1 where f: "map_of (cursorArenaLib cvt fmt) n = Some f"
    and r: "f (L\<lparr>stack := a\<rparr>) g = Some (Inr (L1, g'))" and L': "L' = L1\<lparr>stack := stack L\<rparr>"
    by (auto simp: lua_call_def split: option.splits sum.splits)
  from api_frame [OF map_of_lib [OF f] r] L' show ?thesis by simp
qed

lemma api_rel:
  assumes "f = (\<lambda>L g. Some (api_set_gravity cvt L g)) \<or> f = api_create_entity cvt fmt
       \<or> f = (\<lambda>L g. Some (api_on_mouse_click cvt L g))
       \<or> f = (\<lambda>L g. Some (api_set_map_dimensions cvt L g))"
    and "stack L1 = stack L2"
    and "mapData g1 < length (heap g1)" "mapData g2 < length (heap g2)"
    and "heap g1 ! mapData g1 = heap g2 ! mapData g2"
  shows "rel_option
           (rel_sum (=)
              (\<lambda>r1 r2. heap (snd r1) ! mapData (snd r1) = heap (snd r2) ! mapData (snd r2)))
           (f L1 g1) (f L2 g2)"
  using assms
  by (auto simp: api_defs update_mapData_def luaL_checknumber_def luaL_checktype_def lua_type_def
      luaL_ref_def
      split: sum.splits lua_value.splits prod.splits option.splits)

lemma lua_call_rel:
  assumes "mapData g1 < length (heap g1)" "mapData g2 < length (heap g2)"
    and "heap g1 ! mapData g1 = heap g2 ! mapData g2"
  shows "rel_option
           (rel_sum (=)
              (\<lambda>r1 r2. heap (snd r1) ! mapData (snd r1) = heap (snd r2) ! mapData (snd r2)))
           (lua_call cvt fmt n a L1 g1) (lua_call cvt fmt n a L2 g2)"
proof (cases "map_of (cursorArenaLib cvt fmt) n")
  case None
  then show ?thesis by (simp add: lua_call_def)
next
  case (Some f)
  have "rel_option
           (rel_sum (=)
              (\<lambda>r1 r2. heap (snd r1) ! mapData (snd r1) = heap (snd r2) ! mapData (snd r2)))
           (f (L1\<lparr>stack := a\<rparr>) g1) (f (L2\<lparr>stack := a\<rparr>) g2)"
    by (rule api_rel [OF map_of_lib [OF Some] _ assms]) simp
  then show ?thesis
    by (auto simp: lua_call_def Some rel_sum.simps option_rel_Some1 option_rel_Some2
        split: sum.splits prod.splits option.splits)
qed

lemma lua_call_status:
  "rel_option (rel_sum (=) (\<lambda>r1 r2. True))
     (lua_call cvt fmt n a L1 g1) (lua_call cvt fmt n a L2 g2)"
  by (auto simp: lua_call_def cursorArenaLib_def api_defs luaL_checknumber_def luaL_checktype_def
      lua_type_def rel_sum.simps split: sum.splits prod.splits lua_value.splits option.splits)

lemma dostring_status:
  "map_option fst (luaL_dostring cvt fmt L1 s g1) = map_option fst (luaL_dostring cvt fmt L2 s g2)"
proof (induction s arbitrary: L1 L2 g1 g2)
  case Nil
  show ?case by simp
next
  case (Cons x s)
  show ?case
  proof (cases x)
    case (Call n a)
    with lua_call_status [of cvt fmt n a L1 g1 L2 g2] Cons.IH show ?thesis
      by (auto simp: rel_sum.simps option_rel_Some1 option_rel_Some2 split: option.splits)
  next
    case (PCall n a)
    with lua_call_status [of cvt fmt n a L1 g1 L2 g2] Cons.IH show ?thesis
      by (auto simp: rel_sum.simps option_rel_Some1 option_rel_Some2 split: option.splits)
  next
    case (Raise m)
    then show ?thesis by simp
  qed
qed

lemma dostring_frame:
  "luaL_dostring cvt fmt L s g = Some (st, L', g') \<Longrightarrow>
     mapData g' = mapData g \<and> length (heap g') = length (heap g) \<and> console g' = console g
     \<and> (\<forall>i. i \<noteq> mapData g \<longrightarrow> heap g' ! i = heap g ! i)"
proof (induction s arbitrary: L g)
  case Nil
  then show ?case by simp
next
  case (Cons x s)
  have step: ?case
    if c: "lua_call cvt fmt n a L g = Some (Inr (L1, g1))"
      and d: "luaL_dostring cvt fmt L1 s g1 = Some (st, L', g')" for n a L1 g1
    using Cons.IH [OF d] lua_call_frame [OF c] by simp
  show ?case
  proof (cases x)
    case (Call n a)
    with Cons.prems step [of n a] show ?thesis
      by (auto split: option.splits sum.splits)
  next
    case (PCall n a)
    with Cons.prems step [of n a] Cons.IH [of L g] show ?thesis
      by (auto split: option.splits sum.splits)
  next
    case (Raise m)
    with Cons.prems show ?thesis by simp
  qed
qed

lemma dostring_rel:
  assumes "mapData g1 < length (heap g1)" "mapData g2 < length (heap g2)"
    and "heap g1 ! mapData g1 = heap g2 ! mapData g2"
  shows "rel_option
           (\<lambda>r1 r2. heap (snd (snd r1)) ! mapData g1 = heap (snd (snd r2)) ! mapData g2)
           (luaL_dostring cvt fmt L1 s g1) (luaL_dostring cvt fmt L2 s g2)"
  using assms
proof (induction s arbitrary: L1 L2 g1 g2)
  case Nil
  then show ?case by simp
next
  case (Cons x s)
  note rel = lua_call_rel [OF Cons.prems, of cvt fmt _ _ L1 L2]
  have step: "rel_option
           (\<lambda>r1 r2. heap (snd (snd r1)) ! mapData g1 = heap (snd (snd r2)) ! mapData g2)
           (luaL_dostring cvt fmt L1' s g1') (luaL_dostring cvt fmt L2' s g2')"
    if "lua_call cvt fmt n a L1 g1 = Some (Inr (L1', g1'))"
      "lua_call cvt fmt n a L2 g2 = Some (Inr (L2', g2'))"
    for n a L1' g1' L2' g2'
  proof -
    from rel [of n a] that have eq: "heap g1' ! mapData g1' = heap g2' ! mapData g2'" by simp
    from lua_call_frame [OF that(1)] lua_call_frame [OF that(2)] Cons.prems
    have v: "mapData g1' < length (heap g1')" "mapData g2' < length (heap g2')"
      and m: "mapData g1' = mapData g1" "mapData g2' = mapData g2" by simp_all
    from Cons.IH [OF v eq] m show ?thesis by simp
  qed
  show ?case
  proof (cases x)
    case (Call n a)
    with rel [of n a] step [of n a] Cons.prems show ?thesis
      by (auto simp: rel_sum.simps option_rel_Some1 option_rel_Some2 split: option.splits)
  next
    case (PCall n a)
    with rel [of n a] step [of n a] Cons.prems Cons.IH [OF Cons.prems] show ?thesis
      by (auto simp: rel_sum.simps option_rel_Some1 option_rel_Some2 split: option.splits)
  next
    case (Raise m)
    with Cons.prems show ?thesis by simp
  qed
qed

lemma run_frame:
  assumes "runLuaScript cvt fmt s g = Some (r, g')"
  shows "mapData g' = length (heap g)" "length (heap g') = Suc (length (heap g))"
    "i < length (heap g) \<Longrightarrow> heap g' ! i = heap g ! i"
    "r = None \<or> r = Some (length (heap g))"
proof -
  from assms obtain st L1 g1
    where d: "luaL_dostring cvt fmt luaL_newstate s (reset_mapData g) = Some (st, L1, g1)"
    by (auto simp: runLuaScript_def split: option.splits)
  from assms d have g': "heap g' = heap g1" "mapData g' = mapData g1"
    and r: "r = None \<or> r = Some (mapData g1)"
    by (auto simp: runLuaScript_def split: option.splits)
  note f = dostring_frame [OF d]
  from f g' show "mapData g' = length (heap g)" by (simp add: reset_mapData_def)
  from f g' show "length (heap g') = Suc (length (heap g))" by (simp add: reset_mapData_def)
  from f r show "r = None \<or> r = Some (length (heap g))" by (simp add: reset_mapData_def)
  show "heap g' ! i = heap g ! i" if "i < length (heap g)"
    using f g' that by (simp add: reset_mapData_def nth_append)
qed

lemma run_returns:
  "(runLuaScript cvt fmt s g1 = None) = (runLuaScript cvt fmt s g2 = None)"
  using dostring_status [of cvt fmt luaL_newstate s "reset_mapData g1" luaL_newstate
      "reset_mapData g2"]
  by (cases "luaL_dostring cvt fmt luaL_newstate s (reset_mapData g1)";
      cases "luaL_dostring cvt fmt luaL_newstate s (reset_mapData g2)")
     (auto simp: runLuaScript_def split: option.splits)

lemma run_indep:
  "map_option returned_doc (runLuaScript cvt fmt s g1)
     = map_option returned_doc (runLuaScript cvt fmt s g2)"
proof -
  let ?d1 = "luaL_dostring cvt fmt luaL_newstate s (reset_mapData g1)"
  let ?d2 = "luaL_dostring cvt fmt luaL_newstate s (reset_mapData g2)"
  have st: "map_option fst ?d1 = map_option fst ?d2" by (rule dostring_status)
  have rel: "rel_option
      (\<lambda>r1 r2. heap (snd (snd r1)) ! mapData (reset_mapData g1)
              = heap (snd (snd r2)) ! mapData (reset_mapData g2)) ?d1 ?d2"
    by (rule dostring_rel) (simp_all add: reset_mapData_def)
  show ?thesis
  proof (cases ?d1)
    case None
    with st show ?thesis by (simp add: runLuaScript_def)
  next
    case (Some r1)
    with st obtain r2 where r2: "?d2 = Some r2" and f: "fst r1 = fst r2"
      by (cases ?d2) auto
    obtain st1 L1 h1 where r1e: "r1 = (st1, L1, h1)" by (cases r1)
    obtain st2 L2 h2 where r2e: "r2 = (st2, L2, h2)" by (cases r2)
    from rel Some r2 r1e r2e
    have eq: "heap h1 ! mapData (reset_mapData g1) = heap h2 ! mapData (reset_mapData g2)" by simp
    from dostring_frame [OF Some [unfolded r1e]] dostring_frame [OF r2 [unfolded r2e]]
    have m: "mapData h1 = mapData (reset_mapData g1)" "mapData h2 = mapData (reset_mapData g2)"
      by simp_all
    from Some r2 r1e r2e f eq m show ?thesis
      by (auto simp: runLuaScript_def returned_doc_def split: option.splits)
  qed
qed

subsection \<open>Creating entities and registering handlers\<close>

lemma entries_after_distinct:
  "distinct (map fst (pre @ e # post)) \<Longrightarrow> entries_after (fst e) (pre @ e # post) = Some post"
  by (induction pre) auto

lemma lua_next_at:
  assumes "distinct (map fst (pre @ post))" and "LNil \<notin> fst ` set pre"
  shows "lua_next (pre @ post) (if pre = [] then LNil else fst (last pre))
           = Inr (case post of [] \<Rightarrow> None | e # es \<Rightarrow> Some e)"
proof (cases "pre = []")
  case True
  then show ?thesis by (simp add: lua_next_def)
next
  case False
  then have pre: "pre = butlast pre @ [last pre]" by simp
  then have t: "pre @ post = butlast pre @ last pre # post" by (metis append_Cons append_Nil append_assoc)
  from assms(1) have "entries_after (fst (last pre)) (butlast pre @ last pre # post) = Some post"
    unfolding t by (rule entries_after_distinct)
  moreover from assms(2) False have "fst (last pre) \<noteq> LNil"
    by (metis last_in_set imageI)
  ultimately show ?thesis using False
    by (simp add: lua_next_def t split: list.splits)
qed

lemma copy_prop_named:
  "copy_prop cvt fmt props (Some name) v =
     (case scalar_to_js cvt v of None \<Rightarrow> props | Some j \<Rightarrow> js_assign props (Some name) j)"
  by (cases v) (auto simp: copy_prop_def split: option.splits)

lemma loop_named:
  assumes "distinct (map fst (pre @ post))"
    and "list_all (\<lambda>kv. type_of_value (fst kv) = LUA_TSTRING) (pre @ post)"
  shows "create_entity_loop cvt fmt (pre @ post) (if pre = [] then LNil else fst (last pre)) props
           = Some (Inr (foldl (\<lambda>p kv. copy_prop cvt fmt p (lua_tojsstring fmt (fst kv)) (snd kv))
                          props post))"
  using assms
proof (induction post arbitrary: pre props)
  case Nil
  from Nil.prems(2) have nil: "LNil \<notin> fst ` set pre"
    by (force simp: list_all_iff)
  from lua_next_at [OF Nil.prems(1) nil] show ?case
    by (subst create_entity_loop.simps) simp
next
  case (Cons e post)
  from Cons.prems(2) have nil: "LNil \<notin> fst ` set pre"
    by (force simp: list_all_iff)
  from Cons.prems(2) obtain s where s: "fst e = LString s"
    by (cases "fst e") auto
  have eq: "pre @ e # post = (pre @ [e]) @ post" by simp
  from Cons.prems have p1: "distinct (map fst ((pre @ [e]) @ post))"
    and p2: "list_all (\<lambda>kv. type_of_value (fst kv) = LUA_TSTRING) ((pre @ [e]) @ post)"
    by simp_all
  have "create_entity_loop cvt fmt (pre @ e # post) (if pre = [] then LNil else fst (last pre)) props
      = create_entity_loop cvt fmt (pre @ e # post) (fst e)
          (copy_prop cvt fmt props (lua_tojsstring fmt (fst e)) (snd e))"
    using lua_next_at [OF Cons.prems(1) nil] s
    by (subst create_entity_loop.simps) simp
  also have "\<dots> = Some (Inr (foldl (\<lambda>p kv. copy_prop cvt fmt p (lua_tojsstring fmt (fst kv)) (snd kv))
                          (copy_prop cvt fmt props (lua_tojsstring fmt (fst e)) (snd e)) post))"
    using Cons.IH [OF p1 p2, of "copy_prop cvt fmt props (lua_tojsstring fmt (fst e)) (snd e)"]
    unfolding eq by simp
  finally show ?case by simp
qed

lemma foldl_named:
  assumes "distinct (map fst t)"
    and "list_all (\<lambda>kv. type_of_value (fst kv) = LUA_TSTRING) t"
  shows "foldl (\<lambda>p kv. copy_prop cvt fmt p (lua_tojsstring fmt (fst kv)) (snd kv)) props t name
           = (if name = ''__proto__'' then props name
              else (case map_of t (LString name) of
                      None \<Rightarrow> props name
                    | Some v \<Rightarrow> (case scalar_to_js cvt v of None \<Rightarrow> props name | Some j \<Rightarrow> Some j)))"
  using assms
proof (induction t arbitrary: props)
  case Nil
  show ?case by simp
next
  case (Cons kv t)
  from Cons.prems obtain s where s: "fst kv = LString s" by (cases "fst kv") auto
  from Cons.prems have d: "distinct (map fst t)"
    and a: "list_all (\<lambda>kv. type_of_value (fst kv) = LUA_TSTRING) t"
    and nk: "fst kv \<notin> fst ` set t" by auto
  from nk s have none: "map_of t (LString s) = None" by (simp add: map_of_eq_None_iff)
  show ?case
    unfolding foldl_Cons Cons.IH [OF d a]
    using s none
    by (cases kv) (auto simp: copy_prop_named js_assign_def split: option.splits)
qed

lemma loop_named_record:
  assumes "named_properties t"
  shows "create_entity_loop cvt fmt t LNil Map.empty = Some (Inr (named_record cvt t))"
proof -
  from assms have d: "distinct (map fst ([] @ t))"
    and a: "list_all (\<lambda>kv. type_of_value (fst kv) = LUA_TSTRING) ([] @ t)"
    by (simp_all add: named_properties_def)
  have "foldl (\<lambda>p kv. copy_prop cvt fmt p (lua_tojsstring fmt (fst kv)) (snd kv)) Map.empty t
          = named_record cvt t"
    using foldl_named [of t cvt fmt Map.empty] d a
    by (intro ext) (simp add: named_record_def split: option.splits)
  with loop_named [OF d a, of cvt fmt Map.empty] show ?thesis by simp
qed

lemma create_entity_named:
  "named_properties t \<Longrightarrow>
   api_create_entity cvt fmt (L\<lparr>stack := LTable t # rest\<rparr>) g =
     Some (Inr (L\<lparr>stack := LTable t # rest\<rparr>,
                update_mapData (push_entity (named_record cvt t)) g))"
  by (simp add: api_create_entity_def luaL_checktype_def lua_type_def loop_named_record)

lemma call_create_entity:
  "named_properties t \<Longrightarrow>
   lua_call cvt fmt ''create_entity'' (LTable t # rest) L g =
     Some (Inr (L, update_mapData (push_entity (named_record cvt t)) g))"
  by (simp add: lua_call_def cursorArenaLib_def create_entity_named)

lemma call_on_mouse_click:
  "lua_call cvt fmt ''on_mouse_click'' [LFunction f] L g =
     Some (Inr (L\<lparr>registry := registry L @ [LFunction f]\<rparr>,
                g\<lparr>onMouseClick := Some (int (length (registry L)) + 1)\<rparr>))"
  by (simp add: lua_call_def cursorArenaLib_def api_on_mouse_click_def luaL_checktype_def
      lua_type_def luaL_ref_def)

lemma dostring_create_entities:
  "\<forall>t\<in>set ts. named_properties t \<Longrightarrow>
   luaL_dostring cvt fmt L (map (\<lambda>t. Call ''create_entity'' [LTable t]) ts) g =
     Some (None, L, foldl (\<lambda>g t. update_mapData (push_entity (named_record cvt t)) g) g ts)"
  by (induction ts arbitrary: g) (simp_all add: call_create_entity)

lemma foldl_push_entity:
  "mapData g < length (heap g) \<Longrightarrow>
   foldl (\<lambda>g t. update_mapData (push_entity (named_record cvt t)) g) g ts =
     update_mapData (\<lambda>d. foldl (\<lambda>d t. push_entity (named_record cvt t) d) d ts) g"
proof (induction ts arbitrary: g)
  case Nil
  then show ?case by (simp add: update_mapData_def)
next
  case (Cons t ts)
  have "mapData (update_mapData (push_entity (named_record cvt t)) g)
        < length (heap (update_mapData (push_entity (named_record cvt t)) g))"
    using Cons.prems by (simp add: update_mapData_def)
  from Cons.IH [OF this] Cons.prems show ?case
    by (simp add: update_mapData_def)
qed

lemma foldl_push_entities:
  "entities (foldl (\<lambda>d t. push_entity (named_record cvt t) d) d ts) =
     (if ts = [] then entities d
      else Some ((case entities d of None \<Rightarrow> [] | Some es \<Rightarrow> es) @ map (named_record cvt) ts))"
  by (induction ts arbitrary: d) (auto simp: push_entity_def)

lemma foldl_push_other:
  "gravity (foldl (\<lambda>d t. push_entity (named_record cvt t) d) d ts) = gravity d"
  "dimensions (foldl (\<lambda>d t. push_entity (named_record cvt t) d) d ts) = dimensions d"
  by (induction ts arbitrary: d) (auto simp: push_entity_def)

lemma run_create_entities:
  assumes "\<forall>t\<in>set ts. named_properties t"
  shows "runLuaScript cvt fmt (map (\<lambda>t. Call ''create_entity'' [LTable t]) ts) g =
     Some (Some (length (heap g)),
       g\<lparr>heap := heap g @
           [empty_doc\<lparr>entities := (if ts = [] then None else Some (map (named_record cvt) ts))\<rparr>],
         mapData := length (heap g)\<rparr>)"
proof -
  have v: "mapData (reset_mapData g) < length (heap (reset_mapData g))"
    by (simp add: reset_mapData_def)
  have "foldl (\<lambda>d t. push_entity (named_record cvt t) d) empty_doc ts =
      empty_doc\<lparr>entities := (if ts = [] then None else Some (map (named_record cvt) ts))\<rparr>"
    using foldl_push_entities [of cvt empty_doc ts] foldl_push_other [of cvt empty_doc ts]
    by (intro map_doc.equality) (simp_all add: empty_doc_def)
  moreover have "runLuaScript cvt fmt (map (\<lambda>t. Call ''create_entity'' [LTable t]) ts) g =
      Some (Some (mapData (reset_mapData g)),
       update_mapData (\<lambda>d. foldl (\<lambda>d t. push_entity (named_record cvt t) d) d ts)
         (reset_mapData g))"
    by (simp add: runLuaScript_def dostring_create_entities [OF assms] foldl_push_entity [OF v])
       (simp add: update_mapData_def)
  ultimately show ?thesis
    by (simp add: update_mapData_def reset_mapData_def)
qed

lemma dostring_on_mouse_click:
  "luaL_dostring cvt fmt L (map (\<lambda>f. Call ''on_mouse_click'' [LFunction f]) fs) g =
     Some (None, L\<lparr>registry := registry L @ map LFunction fs\<rparr>,
      if fs = [] then g else g\<lparr>onMouseClick := Some (int (length (registry L) + length fs))\<rparr>)"
  by (induction fs arbitrary: L g) (auto simp: call_on_mouse_click)

lemma rawgeti_last:
  "lua_rawgeti (L\<lparr>registry := xs @ [v]\<rparr>) (int (length xs) + 1) = v"
proof -
  have "nat (int (length xs) + 1) - Suc 0 = length xs" by linarith
  then show ?thesis by (simp add: lua_rawgeti_def)
qed


text \<open>
  The loop of \<open>create_entity\<close> can run for ever: on a table in which the text of the
  numeric key 1 is an earlier key, \<open>lua_next\<close> is sent back to the entry after that
  key again and again, and a script that makes such a call does not return.
\<close>

lemma loop_hangs_aux:
  assumes r: "create_entity_loop cvt fmt t key props = Some y"
  shows "\<not> (t = [(LString (fmt 1), v1), (LNumber 1, v2)] \<and> (key = LNil \<or> key = LString (fmt 1)))"
proof -
  let ?T = "[(LString (fmt 1), v1), (LNumber 1, v2)]"
  let ?P = "\<lambda>(c::str2number) f t key (props::js_props) (y::lua_error + js_props).
      \<not> (f = fmt \<and> t = ?T \<and> (key = LNil \<or> key = LString (fmt 1)))"
  have "?P cvt fmt t key props y"
  proof (rule create_entity_loop.raw_induct [where P = ?P, OF _ r])
    fix loop :: "str2number \<Rightarrow> number2str \<Rightarrow> (lua_value \<times> lua_value) list \<Rightarrow> lua_value \<Rightarrow> js_props
        \<Rightarrow> (lua_error + js_props) option"
    fix c f t key props y
    assume IH: "\<And>c f t key props y. loop c f t key props = Some y \<Longrightarrow> ?P c f t key props y"
      and unf: "(case lua_next t key of Inl e \<Rightarrow> Some (Inl e)
          | Inr None \<Rightarrow> Some (Inr props)
          | Inr (Some kv) \<Rightarrow>
              loop c f t (slot_after_tojsstring f (fst kv))
                (copy_prop c f props (lua_tojsstring f (fst kv)) (snd kv))) = Some y"
    show "?P c f t key props y"
    proof
      assume a: "f = fmt \<and> t = ?T \<and> (key = LNil \<or> key = LString (fmt 1))"
      then have f: "f = fmt" and t: "t = ?T" by simp_all
      from a consider "key = LNil" | "key = LString (fmt 1)" by blast
      then show False
      proof cases
        case 1
        with unf f t have "loop c fmt ?T (LString (fmt 1))
            (copy_prop c fmt props (Some (fmt 1)) v1) = Some y"
          by (simp add: lua_next_def)
        from IH [OF this] show False by simp
      next
        case 2
        with unf f t have "loop c fmt ?T (LString (fmt 1))
            (copy_prop c fmt props (Some (fmt 1)) v2) = Some y"
          by (simp add: lua_next_def)
        from IH [OF this] show False by simp
      qed
    qed
  qed
  then show ?thesis by simp
qed

lemma loop_hangs:
  "create_entity_loop cvt fmt [(LString (fmt 1), v1), (LNumber 1, v2)] LNil Map.empty = None"
  using loop_hangs_aux [of cvt fmt "[(LString (fmt 1), v1), (LNumber 1, v2)]" LNil Map.empty _ v1 v2]
  by (cases "create_entity_loop cvt fmt [(LString (fmt 1), v1), (LNumber 1, v2)] LNil Map.empty") auto

lemma run_hangs:
  "runLuaScript cvt fmt
     [Call ''create_entity'' [LTable [(LString (fmt 1), v1), (LNumber 1, v2)]]] g = None"
  by (simp add: runLuaScript_def lua_call_def cursorArenaLib_def api_create_entity_def
      luaL_checktype_def lua_type_def loop_hangs)

text \<open>
  The editor's default script loads: gravity, three entities in the order of their
  calls, and the click callback under the first free reference.
\<close>

lemma defaultScript_document:
  assumes "cvt ''rect'' = None" and "cvt ''circle'' = None"
  shows "runLuaScript cvt fmt defaultScript init_module =
     Some (Some 1,
      \<lparr>heap = [empty_doc,
         \<lparr>gravity = Some (0, - 2), dimensions = None,
          entities = Some
            [[''shape'' \<mapsto> JSString ''rect'', ''x1'' \<mapsto> JSNumber (1 / 10),
              ''y1'' \<mapsto> JSNumber (1 / 10), ''x2'' \<mapsto> JSNumber (9 / 10),
              ''y2'' \<mapsto> JSNumber (2 / 10), ''is_static'' \<mapsto> JSBoolean True],
             [''shape'' \<mapsto> JSString ''circle'', ''x'' \<mapsto> JSNumber (5 / 10),
              ''y'' \<mapsto> JSNumber (7 / 10), ''radius'' \<mapsto> JSNumber (5 / 100),
              ''restitution'' \<mapsto> JSNumber (8 / 10)],
             [''shape'' \<mapsto> JSString ''rect'', ''x1'' \<mapsto> JSNumber (4 / 10),
              ''y1'' \<mapsto> JSNumber (4 / 10), ''x2'' \<mapsto> JSNumber (6 / 10),
              ''y2'' \<mapsto> JSNumber (5 / 10), ''is_death'' \<mapsto> JSBoolean True]]\<rparr>],
       mapData = 1, onMouseClick = Some 3, console = []\<rparr>)"
  using assms by (simp add: defaultScript_def eval_defs create_entity_loop.simps)

section \<open>The claims about the authoring module\<close>

text \<open>
  Claim C1.  The run of a script, in whichever interpreter state and module state it is
  started (\<open>L0\<close>, \<open>g0\<close>), ends with an error, ends without one, or does not end.
  \<open>runLuaScript\<close> returns \<open>null\<close> exactly when the run ends with an error, so a
  document is returned only for a script that completes; and when the run ends with an
  error the call does return, with \<open>null\<close>, and every object that existed before the
  call, among them a document an earlier call has returned, is the same after it.
\<close>

theorem runLuaScript_fails_closed:
  "(map_option fst (runLuaScript cvt fmt script g) = Some None)
     = (\<exists>e. map_option fst (luaL_dostring cvt fmt L0 script g0) = Some (Some e))
   \<and> ((\<exists>e. map_option fst (luaL_dostring cvt fmt L0 script g0) = Some (Some e)) \<longrightarrow>
        (\<exists>g'. runLuaScript cvt fmt script g = Some (None, g')
           \<and> (\<forall>a<length (heap g). heap g' ! a = heap g ! a)))"
proof -
  let ?d = "luaL_dostring cvt fmt luaL_newstate script (reset_mapData g)"
  have st: "map_option fst ?d = map_option fst (luaL_dostring cvt fmt L0 script g0)"
    by (rule dostring_status)
  have a: "(map_option fst (runLuaScript cvt fmt script g) = Some None)
      = (\<exists>e. map_option fst ?d = Some (Some e))"
    by (cases ?d) (auto simp: runLuaScript_def split: option.splits)
  have b: "\<exists>g'. runLuaScript cvt fmt script g = Some (None, g')
           \<and> (\<forall>a<length (heap g). heap g' ! a = heap g ! a)"
    if "map_option fst (runLuaScript cvt fmt script g) = Some None"
  proof -
    from that obtain g' where r: "runLuaScript cvt fmt script g = Some (None, g')"
      by (cases "runLuaScript cvt fmt script g") auto
    from run_frame(3) [OF r] r show ?thesis by blast
  qed
  from a b st show ?thesis by metis
qed

text \<open>
  Claim C1 at a concrete input.  At a module that has loaded a map with gravity
  \<open>(0, -2)\<close>, a script that creates an entity and then fails returns \<open>null\<close>
  and the loaded map is as it was.
\<close>

theorem runLuaScript_fails_closed_witness:
  "map_option fst (luaL_dostring (\<lambda>s. None) (\<lambda>n. []) luaL_newstate
          [Call ''create_entity'' [LTable [(LString ''shape'', LString ''rect'')]], Raise ''boom'']
          init_module) = Some (Some (ScriptError ''boom''))
   \<and> runLuaScript (\<lambda>s. None) (\<lambda>n. [])
          [Call ''create_entity'' [LTable [(LString ''shape'', LString ''rect'')]], Raise ''boom'']
          \<lparr>heap = [empty_doc, empty_doc\<lparr>gravity := Some (0, - 2)\<rparr>], mapData = 1,
            onMouseClick = None, console = []\<rparr>
       = Some (None,
          \<lparr>heap = [empty_doc, empty_doc\<lparr>gravity := Some (0, - 2)\<rparr>,
                   empty_doc\<lparr>entities := Some [[''shape'' \<mapsto> JSString ''rect'']]\<rparr>],
            mapData = 2, onMouseClick = None, console = [ScriptError ''boom'']\<rparr>)"
  using runLuaScript_fails_closed [where cvt = "\<lambda>s. None" and fmt = "\<lambda>n. []"
      and script = "[Call ''create_entity'' [LTable [(LString ''shape'', LString ''rect'')]],
                     Raise ''boom'']"
      and g = "\<lparr>heap = [empty_doc, empty_doc\<lparr>gravity := Some (0, - 2)\<rparr>], mapData = 1,
            onMouseClick = None, console = []\<rparr>"
      and ?L0.0 = luaL_newstate and ?g0.0 = init_module]
  by (simp add: eval_defs create_entity_loop.simps)

text \<open>
  Claim C2, as the claim states it: a \<open>"rect"\<close> without its corners would be kept out
  of the entity list and a warning would be raised.  \<open>create_entity\<close> checks nothing
  but that its argument is a table: the entity is in the returned document and nothing
  is logged.
\<close>

theorem create_entity_accepts_incomplete_rect:
  "named_properties [(LString ''shape'', LString ''rect'')]
   \<and> spec_missing_shape_fields [(LString ''shape'', LString ''rect'')]
   \<and> runLuaScript (\<lambda>s. None) (\<lambda>n. [])
        [Call ''create_entity'' [LTable [(LString ''shape'', LString ''rect'')]]] init_module
       = Some (Some 1,
           \<lparr>heap = [empty_doc,
              \<lparr>gravity = None, dimensions = None,
               entities = Some [[''shape'' \<mapsto> JSString ''rect'']]\<rparr>],
            mapData = 1, onMouseClick = None, console = []\<rparr>)"
  by (simp add: eval_defs create_entity_loop.simps spec_missing_shape_fields_def
      named_properties_def)

text \<open>
  Claim C2, amended.  An entity specification given as a table of named properties
  that is missing required shape fields is treated like every other one: in a script of
  \<open>create_entity\<close> calls on such tables each specification, in particular the
  incomplete one, yields its record in the returned document, the run completes, and
  nothing is logged.  (What happens to a table with other keys is left to claim C9.)
\<close>

theorem create_entity_does_not_validate:
  assumes "\<forall>t\<in>set ts. named_properties t" and "t \<in> set ts" and "spec_missing_shape_fields t"
  shows "runLuaScript cvt fmt (map (\<lambda>t. Call ''create_entity'' [LTable t]) ts) g
           = Some (Some (length (heap g)),
               g\<lparr>heap := heap g @ [empty_doc\<lparr>entities := Some (map (named_record cvt) ts)\<rparr>],
                 mapData := length (heap g)\<rparr>)
         \<and> named_record cvt t \<in> set (map (named_record cvt) ts)"
proof -
  from assms(2) have "ts \<noteq> []" by auto
  with run_create_entities [OF assms(1), of cvt fmt g] assms(2) show ?thesis by simp
qed

text \<open>
  Claim C2 at a concrete input.  A circle with \<open>x\<close> alone, followed by a complete
  circle: both are in the document.
\<close>

theorem create_entity_does_not_validate_witness:
  "named_properties [(LString ''shape'', LString ''circle''), (LString ''x'', LNumber 1)]
   \<and> named_properties [(LString ''shape'', LString ''circle''), (LString ''x'', LNumber 1),
               (LString ''y'', LNumber 2), (LString ''radius'', LNumber 3)]
   \<and> spec_missing_shape_fields [(LString ''shape'', LString ''circle''), (LString ''x'', LNumber 1)]
   \<and> runLuaScript (\<lambda>s. None) (\<lambda>n. [])
        (map (\<lambda>t. Call ''create_entity'' [LTable t])
          [[(LString ''shape'', LString ''circle''), (LString ''x'', LNumber 1)],
           [(LString ''shape'', LString ''circle''), (LString ''x'', LNumber 1),
            (LString ''y'', LNumber 2), (LString ''radius'', LNumber 3)]]) init_module
     = Some (Some 1,
         \<lparr>heap = [empty_doc,
            empty_doc\<lparr>entities := Some
              [[''shape'' \<mapsto> JSString ''circle'', ''x'' \<mapsto> JSNumber 1],
               [''shape'' \<mapsto> JSString ''circle'', ''x'' \<mapsto> JSNumber 1, ''y'' \<mapsto> JSNumber 2,
                ''radius'' \<mapsto> JSNumber 3]]\<rparr>],
          mapData = 1, onMouseClick = None, console = []\<rparr>)"
  using create_entity_does_not_validate
    [where t = "[(LString ''shape'', LString ''circle''), (LString ''x'', LNumber 1)]"
      and ts = "[[(LString ''shape'', LString ''circle''), (LString ''x'', LNumber 1)],
           [(LString ''shape'', LString ''circle''), (LString ''x'', LNumber 1),
            (LString ''y'', LNumber 2), (LString ''radius'', LNumber 3)]]"
      and cvt = "\<lambda>s. None" and fmt = "\<lambda>n. []" and g = init_module]
  by (simp add: eval_defs create_entity_loop.simps spec_missing_shape_fields_def
      named_properties_def)

text \<open>
  Claim C3.  The API document offers \<open>set_cursor_size\<close> and \<open>on_object_collision\<close>
  besides the four functions of \<open>cursorArenaLib\<close>; the table has no entry for either,
  and a script that calls one of them fails with a call of \<open>nil\<close>: \<open>runLuaScript\<close>
  returns \<open>null\<close>.
\<close>

theorem documented_functions_not_registered:
  "map fst (cursorArenaLib cvt fmt)
     = [''set_gravity'', ''create_entity'', ''on_mouse_click'', ''set_map_dimensions'']
   \<and> map_of (cursorArenaLib cvt fmt) ''set_cursor_size'' = None
   \<and> map_of (cursorArenaLib cvt fmt) ''on_object_collision'' = None
   \<and> runLuaScript cvt fmt [Call ''set_cursor_size'' [LNumber (1 / 2)]] g
       = Some (None, (reset_mapData g)\<lparr>console := console g @ [CallNil ''set_cursor_size'']\<rparr>)
   \<and> runLuaScript cvt fmt [Call ''on_object_collision'' [LFunction f]] g
       = Some (None,
           (reset_mapData g)\<lparr>console := console g @ [CallNil ''on_object_collision'']\<rparr>)"
  by (simp add: runLuaScript_def lua_call_def cursorArenaLib_def reset_mapData_def)




text \<open>
  Claim C5, as the claim states it: a second \<open>on_mouse_click\<close> would keep the first
  callback in a list of handlers.  The module keeps one registry reference in
  \<open>onMouseClick\<close>; after two registrations it is the reference of the second
  function, and the first is no longer known to the module.
\<close>

theorem second_click_handler_replaces_first:
  "(case luaL_dostring (\<lambda>s. None) (\<lambda>n. []) luaL_newstate
           [Call ''on_mouse_click'' [LFunction 1], Call ''on_mouse_click'' [LFunction 2]]
           init_module of
      None \<Rightarrow> False
    | Some (status, L, g) \<Rightarrow>
        status = None \<and> registered_click_handlers L g = [LFunction 2]
        \<and> LFunction 1 \<notin> set (registered_click_handlers L g))"
  by (simp add: eval_defs registered_click_handlers_def)

text \<open>
  Claim C5, amended.  \<open>on_mouse_click\<close> stores the callback in the interpreter's
  registry and the reference to it in the single variable \<open>onMouseClick\<close>, replacing
  what the variable held: after any number of registrations the variable refers to the
  callback registered last.
\<close>

theorem on_mouse_click_last_wins:
  "(case luaL_dostring cvt fmt L (map (\<lambda>f. Call ''on_mouse_click'' [LFunction f]) (fs @ [f])) g of
      None \<Rightarrow> False
    | Some (status, L', g') \<Rightarrow> status = None \<and> registered_click_handlers L' g' = [LFunction f])"
proof -
  have "lua_rawgeti (L\<lparr>registry := (registry L @ map LFunction fs) @ [LFunction f]\<rparr>)
          (int (length (registry L @ map LFunction fs)) + 1) = LFunction f"
    by (rule rawgeti_last)
  then have "lua_rawgeti (L\<lparr>registry := registry L @ map LFunction (fs @ [f])\<rparr>)
          (int (length (registry L) + length (fs @ [f]))) = LFunction f"
    by (simp add: ac_simps)
  then show ?thesis
    unfolding dostring_on_mouse_click registered_click_handlers_def by simp
qed

text \<open>
  Claim C9.  \<open>create_entity\<close> is to append one record for every property table and
  to copy every key whose value is a number, a boolean or a string.  It reads the text
  of each key with \<open>lua_tojsstring\<close> in the slot \<open>lua_next\<close> continues from, and it
  stores with a plain assignment.  For the table \<open>{10, 20}\<close> the key 1 is left as a
  string that is no key of the table: \<open>lua_next\<close> raises, no record is appended and
  \<open>runLuaScript\<close> returns \<open>null\<close>.  For the table \<open>{__proto__ = 5, x = 1}\<close> a record
  is appended, but the key \<open>__proto__\<close> is not in it although its value is a number.
\<close>

theorem create_entity_misreads_keys:
  "runLuaScript cvt fmt
      [Call ''create_entity'' [LTable [(LNumber 1, LNumber 10), (LNumber 2, LNumber 20)]]] g
     = Some (None, (reset_mapData g)\<lparr>console := console g @ [InvalidKeyToNext]\<rparr>)
   \<and> runLuaScript cvt fmt
      [Call ''create_entity'' [LTable [(LString ''__proto__'', LNumber 5), (LString ''x'', LNumber 1)]]]
      g
     = Some (Some (length (heap g)),
         g\<lparr>heap := heap g @ [empty_doc\<lparr>entities := Some [[''x'' \<mapsto> JSNumber 1]]\<rparr>],
           mapData := length (heap g)\<rparr>)"
proof -
  have "create_entity_loop cvt fmt [(LNumber 1, LNumber 10), (LNumber 2, LNumber 20)] LNil Map.empty
          = Some (Inl InvalidKeyToNext)"
    by (simp add: create_entity_loop.simps lua_next_def)
  then have a: "runLuaScript cvt fmt
      [Call ''create_entity'' [LTable [(LNumber 1, LNumber 10), (LNumber 2, LNumber 20)]]] g
     = Some (None, (reset_mapData g)\<lparr>console := console g @ [InvalidKeyToNext]\<rparr>)"
    by (simp add: runLuaScript_def lua_call_def cursorArenaLib_def api_create_entity_def
        luaL_checktype_def lua_type_def reset_mapData_def)
  have n: "named_properties [(LString ''__proto__'', LNumber 5), (LString ''x'', LNumber 1)]"
    by (simp add: named_properties_def)
  have r: "named_record cvt [(LString ''__proto__'', LNumber 5), (LString ''x'', LNumber 1)]
             = [''x'' \<mapsto> JSNumber 1]"
    by (rule ext) (simp add: named_record_def)
  from run_create_entities
    [of "[[(LString ''__proto__'', LNumber 5), (LString ''x'', LNumber 1)]]" cvt fmt g] n r
  have "runLuaScript cvt fmt
      [Call ''create_entity'' [LTable [(LString ''__proto__'', LNumber 5), (LString ''x'', LNumber 1)]]]
      g
     = Some (Some (length (heap g)),
         g\<lparr>heap := heap g @ [empty_doc\<lparr>entities := Some [[''x'' \<mapsto> JSNumber 1]]\<rparr>],
           mapData := length (heap g)\<rparr>)"
    by simp
  with a show ?thesis by simp
qed

text \<open>
  Claim C10.  \<open>runLuaScript\<close> makes \<open>mapData\<close> a new empty object before it runs the
  script: a script \<open>s2\<close> run after a run of any script \<open>s1\<close> returns the document it
  returns at a freshly loaded module, and the empty script returns the empty document
  whatever was accumulated before.
\<close>

theorem runLuaScript_resets:
  "(runLuaScript cvt fmt s1 g = Some (r1, g1) \<longrightarrow>
      map_option returned_doc (runLuaScript cvt fmt s2 g1)
        = map_option returned_doc (runLuaScript cvt fmt s2 init_module))
   \<and> map_option returned_doc (runLuaScript cvt fmt [] g) = Some (Some empty_doc)"
proof -
  have "map_option returned_doc (runLuaScript cvt fmt [] g) = Some (Some empty_doc)"
    by (simp add: runLuaScript_def returned_doc_def reset_mapData_def)
  then show ?thesis using run_indep [of cvt fmt s2 g1 init_module] by simp
qed

text \<open>
  Claim C10 at a concrete input.  After a run that created an entity, a run that sets
  the gravity returns the document with the gravity alone, as it does at a freshly
  loaded module.
\<close>

theorem runLuaScript_resets_witness:
  "runLuaScript (\<lambda>s. None) (\<lambda>n. [])
      [Call ''create_entity'' [LTable [(LString ''shape'', LString ''rect'')]]] init_module
     = Some (Some 1,
         \<lparr>heap = [empty_doc, empty_doc\<lparr>entities := Some [[''shape'' \<mapsto> JSString ''rect'']]\<rparr>],
          mapData = 1, onMouseClick = None, console = []\<rparr>)
   \<and> map_option returned_doc (runLuaScript (\<lambda>s. None) (\<lambda>n. [])
        [Call ''set_gravity'' [LNumber 0, LNumber (- 2)]]
        \<lparr>heap = [empty_doc, empty_doc\<lparr>entities := Some [[''shape'' \<mapsto> JSString ''rect'']]\<rparr>],
          mapData = 1, onMouseClick = None, console = []\<rparr>)
     = Some (Some (empty_doc\<lparr>gravity := Some (0, - 2)\<rparr>))
   \<and> map_option returned_doc (runLuaScript (\<lambda>s. None) (\<lambda>n. [])
        [Call ''set_gravity'' [LNumber 0, LNumber (- 2)]] init_module)
     = Some (Some (empty_doc\<lparr>gravity := Some (0, - 2)\<rparr>))"
  using runLuaScript_resets [where cvt = "\<lambda>s. None" and fmt = "\<lambda>n. []"
      and ?s1.0 = "[Call ''create_entity'' [LTable [(LString ''shape'', LString ''rect'')]]]"
      and g = init_module and ?r1.0 = "Some 1"
      and ?g1.0 = "\<lparr>heap = [empty_doc,
            empty_doc\<lparr>entities := Some [[''shape'' \<mapsto> JSString ''rect'']]\<rparr>],
          mapData = 1, onMouseClick = None, console = []\<rparr>"
      and ?s2.0 = "[Call ''set_gravity'' [LNumber 0, LNumber (- 2)]]"]
  by (simp add: eval_defs create_entity_loop.simps)

section \<open>Properties of the game client\<close>

lemma onmessage_frame:
  "inputState (onmessage parse d c) = inputState c"
  "scale (onmessage parse d c) = scale c"
  "mousemove_listener (onmessage parse d c) = mousemove_listener c"
  "button_listeners (onmessage parse d c) = button_listeners c"
  "interval_set (onmessage parse d c) = interval_set c"
  "readyState (onmessage parse d c) = readyState c"
  "sent (onmessage parse d c) = sent c"
  by (auto simp: onmessage_def onmessage_try_def draw_def split: sum.splits option.splits)

lemma handleResize_frame:
  "inputState (handleResize w h c) = inputState c"
  "mousemove_listener (handleResize w h c) = mousemove_listener c"
  by (simp_all add: handleResize_def Let_def)

lemma handleResize_mp_frame:
  "button_listeners (handleResize w h c) = button_listeners c"
  "interval_set (handleResize w h c) = interval_set c"
  "readyState (handleResize w h c) = readyState c"
  "sent (handleResize w h c) = sent c"
  "localPlayerId (handleResize w h c) = localPlayerId c"
  by (simp_all add: handleResize_def Let_def)


lemma mp_step_sent:
  "\<exists>ms. sent (mp_step parse e c) = sent c @ ms"
  by (cases e)
     (simp_all add: onopen_def onclose_def onmessage_frame handleResize_mp_frame
       updatePosition_def setMouseDown_def sendInput_def Let_def)

lemma mp_run_sent:
  "\<exists>ms. sent (mp_run parse evs c) = sent c @ ms"
proof (induction evs arbitrary: c)
  case Nil
  show ?case by simp
next
  case (Cons e evs)
  from Cons.IH [of "mp_step parse e c"] mp_step_sent [of parse e c] show ?case by auto
qed

lemma mp_step_quiet:
  assumes "sent (mp_step parse e c) = sent c"
  shows "inputState (mp_step parse e c) =
           \<lparr>mouse_dx = mouse_dx (inputState c) + sum_list (map fst (mp_moves [e] (mousemove_listener c))),
            mouse_dy = mouse_dy (inputState c) - sum_list (map snd (mp_moves [e] (mousemove_listener c))),
            isMouseDown = mp_button [e] (button_listeners c) (isMouseDown (inputState c))\<rparr>"
    and "mousemove_listener (mp_step parse e c) =
           (case e of SocketOpen \<Rightarrow> True | SocketClose \<Rightarrow> False | _ \<Rightarrow> mousemove_listener c)"
    and "button_listeners (mp_step parse e c) =
           (case e of SocketOpen \<Rightarrow> True | _ \<Rightarrow> button_listeners c)"
  using assms
  by (cases e;
      simp add: onopen_def onclose_def onmessage_frame handleResize_frame handleResize_mp_frame
        updatePosition_def setMouseDown_def sendInput_def Let_def split: if_splits)+

lemma mp_moves_step:
  "mp_moves (e # es) l =
     mp_moves [e] l @ mp_moves es (case e of SocketOpen \<Rightarrow> True | SocketClose \<Rightarrow> False | _ \<Rightarrow> l)"
  by (cases e) simp_all

lemma mp_button_step:
  "mp_button (e # es) l b =
     mp_button es (case e of SocketOpen \<Rightarrow> True | _ \<Rightarrow> l) (mp_button [e] l b)"
  by (cases e) simp_all

lemma mp_run_quiet:
  assumes "sent (mp_run parse evs c) = sent c"
  shows "inputState (mp_run parse evs c) =
           \<lparr>mouse_dx = mouse_dx (inputState c) + sum_list (map fst (mp_moves evs (mousemove_listener c))),
            mouse_dy = mouse_dy (inputState c) - sum_list (map snd (mp_moves evs (mousemove_listener c))),
            isMouseDown = mp_button evs (button_listeners c) (isMouseDown (inputState c))\<rparr>"
  using assms
proof (induction evs arbitrary: c)
  case Nil
  show ?case by simp
next
  case (Cons e evs)
  let ?c = "mp_step parse e c"
  obtain ms1 where ms1: "sent ?c = sent c @ ms1" using mp_step_sent by blast
  obtain ms2 where ms2: "sent (mp_run parse evs ?c) = sent ?c @ ms2" using mp_run_sent by blast
  from Cons.prems ms1 ms2 have q1: "sent ?c = sent c" and q2: "sent (mp_run parse evs ?c) = sent ?c"
    by simp_all
  note s = mp_step_quiet [OF q1]
  show ?case
    unfolding mp_run.simps Cons.IH [OF q2] s
    by (subst (1 2) mp_moves_step, subst mp_button_step) (simp add: algebra_simps)
qed






lemma start_buffers:
  "mouse_dx (inputState (initMultiplayerGame w h)) = 0"
  "mouse_dy (inputState (initMultiplayerGame w h)) = 0"
  "mouse_dx (inputState (sendInput c0)) = (if readyState c0 = OPEN then 0 else mouse_dx (inputState c0))"
  "mouse_dy (inputState (sendInput c0)) = (if readyState c0 = OPEN then 0 else mouse_dy (inputState c0))"
  "mouse_dx (inputState (initLocalGame w h)) = 0"
  "mouse_dy (inputState (initLocalGame w h)) = 0"
  "mouse_dx (inputState (gameLoop l0)) = 0"
  "mouse_dy (inputState (gameLoop l0)) = 0"
  by (simp_all add: initMultiplayerGame_def initLocalGame_def handleResize_frame sendInput_def
      gameLoop_def Let_def)

section \<open>The claims about the game client\<close>

text \<open>
  Claim C6.  A message is sent by \<open>sendInput\<close> when the socket is open.  It is a
  record of \<open>mouse_dx\<close>, \<open>mouse_dy\<close> and \<open>is_mouse_down\<close>.  Take the client right
  after it was set up or right after a message was sent, and any run of events during
  which nothing is sent: the next message holds the sum of the horizontal movements
  that reached \<open>updatePosition\<close> during the run and the negated sum of the vertical
  ones, each divided by the scale of the moment, and the button state of the moment.
\<close>

theorem sendInput_message:
  assumes "c = initMultiplayerGame w h \<or> (readyState c0 = OPEN \<and> c = sendInput c0)"
    and "sent (mp_run parse evs c) = sent c"
    and "readyState (mp_run parse evs c) = OPEN"
  shows "sent (sendInput (mp_run parse evs c)) =
           sent c @
           [\<lparr>msg_mouse_dx = js_div (sum_list (map fst (mp_moves evs (mousemove_listener c))))
                              (scale (mp_run parse evs c)),
             msg_mouse_dy = js_div (- sum_list (map snd (mp_moves evs (mousemove_listener c))))
                              (scale (mp_run parse evs c)),
             is_mouse_down = isMouseDown (inputState (mp_run parse evs c))\<rparr>]"
proof -
  from assms(1) have z: "mouse_dx (inputState c) = 0" "mouse_dy (inputState c) = 0"
    by (auto simp: start_buffers)
  from mp_run_quiet [OF assms(2)] z assms(2,3) show ?thesis
    by (simp add: sendInput_def Let_def)
qed

text \<open>
  Claim C6 at a concrete input.  On a 1600 by 900 canvas the scale is 100. A movement
  before the socket opens is not heard; movements of \<open>(30, -20)\<close> and
  \<open>(20, 10)\<close> after it, with the button pressed and an unreadable packet
  in between, are sent as \<open>(1/2, 1/10)\<close> with the button down.
\<close>

theorem sendInput_message_witness:
  "sent (mp_run (\<lambda>s. None)
      [MouseMove 5 5, SocketOpen, MouseMove 30 (- 20), MouseDown, SocketMessage ''junk'',
       MouseMove 20 10] (initMultiplayerGame 1600 900)) = sent (initMultiplayerGame 1600 900)
   \<and> readyState (mp_run (\<lambda>s. None)
      [MouseMove 5 5, SocketOpen, MouseMove 30 (- 20), MouseDown, SocketMessage ''junk'',
       MouseMove 20 10] (initMultiplayerGame 1600 900)) = OPEN
   \<and> sent (sendInput (mp_run (\<lambda>s. None)
      [MouseMove 5 5, SocketOpen, MouseMove 30 (- 20), MouseDown, SocketMessage ''junk'',
       MouseMove 20 10] (initMultiplayerGame 1600 900)))
     = [\<lparr>msg_mouse_dx = Finite (1 / 2), msg_mouse_dy = Finite (1 / 10), is_mouse_down = True\<rparr>]"
  using sendInput_message [where c = "initMultiplayerGame 1600 900" and w = 1600 and h = 900
      and parse = "\<lambda>s. None"
      and evs = "[MouseMove 5 5, SocketOpen, MouseMove 30 (- 20), MouseDown,
                  SocketMessage ''junk'', MouseMove 20 10]"]
  by (simp add: initMultiplayerGame_def handleResize_def Let_def WORLD_ASPECT_RATIO_def
      WORLD_WIDTH_def WORLD_HEIGHT_def onopen_def onmessage_def onmessage_try_def
      updatePosition_def setMouseDown_def sendInput_def js_div_def)



text \<open>
  Claim C8.  A message that \<open>JSON.parse\<close> rejects changes nothing but the log of
  errors: the player id, the buffered input and the state of the socket are as before.
\<close>

theorem onmessage_unparseable:
  assumes "parse data = None"
  shows "mp_step parse (SocketMessage data) c = c\<lparr>errors := errors c @ [SyntaxError]\<rparr>
         \<and> localPlayerId (mp_step parse (SocketMessage data) c) = localPlayerId c
         \<and> inputState (mp_step parse (SocketMessage data) c) = inputState c
         \<and> readyState (mp_step parse (SocketMessage data) c) = readyState c"
  using assms by (simp add: onmessage_def onmessage_try_def)

text \<open>
  Claim C8 at a concrete input.  A client that knows its id and has input buffered
  receives a broken packet.
\<close>

theorem onmessage_unparseable_witness:
  "(\<lambda>s. if s = ''null'' then Some JNull else None) ''{type:'' = None
   \<and> mp_step (\<lambda>s. if s = ''null'' then Some JNull else None) (SocketMessage ''{type:'')
       \<lparr>inputState = \<lparr>mouse_dx = 3, mouse_dy = - 4, isMouseDown = True\<rparr>,
        scale = 100, canvas_width = 1600, canvas_height = 900, mousemove_listener = True,
        localPlayerId = Some (JNum 7), readyState = OPEN, sent = [],
        button_listeners = True, interval_set = True, drawn = [], errors = []\<rparr>
     = \<lparr>inputState = \<lparr>mouse_dx = 3, mouse_dy = - 4, isMouseDown = True\<rparr>,
        scale = 100, canvas_width = 1600, canvas_height = 900, mousemove_listener = True,
        localPlayerId = Some (JNum 7), readyState = OPEN, sent = [],
        button_listeners = True, interval_set = True, drawn = [], errors = [SyntaxError]\<rparr>"
  using onmessage_unparseable [where parse = "\<lambda>s. if s = ''null'' then Some JNull else None"
      and data = "''{type:''"
      and c = "\<lparr>inputState = \<lparr>mouse_dx = 3, mouse_dy = - 4, isMouseDown = True\<rparr>,
        scale = 100, canvas_width = 1600, canvas_height = 900, mousemove_listener = True,
        localPlayerId = Some (JNum 7), readyState = OPEN, sent = [],
        button_listeners = True, interval_set = True, drawn = [], errors = []\<rparr>"]
  by simp

end
